theory Spec2Isabelle
  imports Main "HOL-Library.AList" "HOL-Library.Char_ord" "HOL-Library.List_Lexorder"
begin

section \<open>Python strings\<close>

text \<open>
  A Python \<open>str\<close> is modelled as a \<open>string\<close>; every \<open>char\<close> stands for one code point
  (so the model covers the code points below 256) and \<open>length\<close> is Python's \<open>len\<close>.
\<close>

definition digit_char :: "nat \<Rightarrow> char" where
  "digit_char d = char_of (48 + d)"

text \<open>\<open>str(n)\<close> for a non-negative integer: its decimal digits.\<close>

fun str_nat :: "nat \<Rightarrow> string" where
  "str_nat n = (if n < 10 then [digit_char n] else str_nat (n div 10) @ [digit_char (n mod 10)])"

declare str_nat.simps [simp del]

text \<open>\<open>str(i)\<close>, as an f-string formats an \<open>int\<close>.\<close>

definition str_int :: "int \<Rightarrow> string" where
  "str_int i = (if i < 0 then CHR ''-'' # str_nat (nat (- i)) else str_nat (nat i))"

text \<open>
  \<open>str.isspace\<close> on one code point below 256: tab to carriage return, the four
  separators \<open>0x1c\<close> to \<open>0x1f\<close>, space, \<open>0x85\<close> and \<open>0xa0\<close>.
\<close>

definition isspace :: "char \<Rightarrow> bool" where
  "isspace c = (let n = (of_char c :: nat)
                in (9 \<le> n \<and> n \<le> 13) \<or> (28 \<le> n \<and> n \<le> 32) \<or> n = 133 \<or> n = 160)"

text \<open>\<open>s.strip()\<close>: leading and trailing whitespace removed.\<close>

definition strip :: "string \<Rightarrow> string" where
  "strip s = rev (dropWhile isspace (rev (dropWhile isspace s)))"

text \<open>\<open>sep.join(xs)\<close>.\<close>

fun join :: "string \<Rightarrow> string list \<Rightarrow> string" where
  "join sep [] = []"
| "join sep [x] = x"
| "join sep (x # y # ys) = x @ sep @ join sep (y # ys)"

text \<open>
  \<open>repr(s)\<close>: single quotes, unless the string holds a single quote and no double
  quote; the quote in use and the backslash are escaped, tab, newline and carriage
  return are written \<open>\t\<close>, \<open>\n\<close>, \<open>\r\<close>, and the other code points that are not
  printable are written \<open>\xNN\<close>.
\<close>

definition hex_digit :: "nat \<Rightarrow> char" where
  "hex_digit d = (if d < 10 then char_of (48 + d) else char_of (87 + d))"

definition repr_char :: "char \<Rightarrow> char \<Rightarrow> string" where
  "repr_char q c =
     (let n = (of_char c :: nat)
      in if c = q \<or> c = CHR 0x5C then [CHR 0x5C, c]
         else if n = 9 then [CHR 0x5C, CHR ''t'']
         else if n = 10 then [CHR 0x5C, CHR ''n'']
         else if n = 13 then [CHR 0x5C, CHR ''r'']
         else if n < 32 \<or> n = 127 \<or> (128 \<le> n \<and> n \<le> 160) \<or> n = 173
           then [CHR 0x5C, CHR ''x'', hex_digit (n div 16), hex_digit (n mod 16)]
         else [c])"

definition py_repr :: "string \<Rightarrow> string" where
  "py_repr s =
     (let q = (if CHR 0x27 \<in> set s \<and> CHR 0x22 \<notin> set s then CHR 0x22 else CHR 0x27)
      in q # concat (map (repr_char q) s) @ [q])"

text \<open>The number of bytes of the UTF-8 encoding of a string.\<close>

definition utf8_size :: "string \<Rightarrow> nat" where
  "utf8_size s = sum_list (map (\<lambda>c. if (of_char c :: nat) < 128 then 1 else 2) s)"

text \<open>\<open>x or ""\<close> for an optional string: \<open>None\<close> and the empty string both give \<open>""\<close>.\<close>

definition or_empty :: "string option \<Rightarrow> string" where
  "or_empty x = (case x of None \<Rightarrow> [] | Some s \<Rightarrow> s)"


section \<open>The relay server (server.py)\<close>

subsection \<open>Models\<close>

text \<open>\<open>CommandStatus\<close>: a \<open>str\<close> enum, stored and compared by its value.\<close>

definition PENDING :: string where "PENDING = ''pending''"
definition RUNNING :: string where "RUNNING = ''running''"
definition COMPLETED :: string where "COMPLETED = ''completed''"
definition FAILED :: string where "FAILED = ''failed''"
definition TIMEOUT :: string where "TIMEOUT = ''timeout''"

text \<open>
  One row of the table \<open>commands\<close> of \<open>init_db\<close>. The column \<open>status\<close> is
  \<open>NOT NULL\<close>, \<open>id\<close> is the primary key; the nullable columns are options.
  Timestamps are the ISO strings of \<open>datetime.now(timezone.utc).isoformat()\<close>.
\<close>

record command_row =
  col_id :: string
  col_type :: string
  col_status :: string
  col_command :: "string option"
  col_path :: "string option"
  col_content :: "string option"
  col_working_dir :: "string option"
  col_timeout :: int
  col_output :: "string option"
  col_error :: "string option"
  col_exit_code :: "int option"
  col_created_at :: string
  col_started_at :: "string option"
  col_completed_at :: "string option"

text \<open>The frame \<open>send_command\<close> pushes to the agent.\<close>

record execute_frame =
  x_id :: string
  x_command_type :: string
  x_command :: "string option"
  x_path :: "string option"
  x_content :: "string option"
  x_working_dir :: "string option"
  x_timeout :: int

text \<open>
  A frame read by \<open>websocket.receive_json()\<close>. The fields have the types of the wire
  protocol; \<open>data.get(k)\<close> does not tell an absent key from a \<open>null\<close>, so those fields
  are options. \<open>data.get("status", "completed")\<close> does tell them apart.
\<close>

datatype 'a field = Absent | Null | Val 'a

record frame =
  f_type :: "string option"
  f_id :: "string option"
  f_status :: "string field"
  f_output :: "string option"
  f_error :: "string option"
  f_exit_code :: "int option"

text \<open>
  The agent's socket as the server sees it: \<open>send_json\<close> delivers the frame while the
  transport is up and raises otherwise.
\<close>

record websocket =
  transport_up :: bool
  delivered :: "execute_frame list"
  pongs :: nat

text \<open>
  The exceptions of the model. An \<open>OSError\<close> carries its number, its message and the
  file name; \<open>str(e)\<close> puts them together.
\<close>

datatype exn =
    IntegrityError string
  | OverflowError string
  | TransportError string
  | RuntimeError string
  | ValueError string
  | OSError nat string string

fun str_exn :: "exn \<Rightarrow> string" where
  "str_exn (IntegrityError m) = m"
| "str_exn (OverflowError m) = m"
| "str_exn (TransportError m) = m"
| "str_exn (RuntimeError m) = m"
| "str_exn (ValueError m) = m"
| "str_exn (OSError n m f) = ''[Errno '' @ str_nat n @ ''] '' @ m @ '': '' @ py_repr f"

text \<open>
  The server's state: the table, \<open>manager.agent_connection\<close>, and the time spent in
  \<open>asyncio.sleep\<close>, in milliseconds.
\<close>

record relay =
  commands :: "command_row list"
  agent_connection :: "websocket option"
  slept_ms :: nat

subsection \<open>The statements on the table\<close>

text \<open>
  An \<open>int\<close> is bound to a statement as a signed 64-bit integer; binding one outside
  that range raises \<open>OverflowError\<close>, before the statement runs.
\<close>

definition sqlite_integer :: "int \<Rightarrow> bool" where
  "sqlite_integer i = (- (2 ^ 63) \<le> i \<and> i < 2 ^ 63)"

definition TOO_LARGE :: exn where
  "TOO_LARGE = OverflowError ''Python int too large to convert to SQLite INTEGER''"

text \<open>\<open>SELECT * FROM commands WHERE id = ?\<close>, \<open>fetchone\<close>.\<close>

definition select_by_id :: "string \<Rightarrow> command_row list \<Rightarrow> command_row option" where
  "select_by_id cid rows = find (\<lambda>r. col_id r = cid) rows"

text \<open>
  The \<open>INSERT\<close> of \<open>execute_command\<close>: a timeout that cannot be bound raises, and so
  does a repeated primary key.
\<close>

definition insert_command ::
  "string \<Rightarrow> string \<Rightarrow> string option \<Rightarrow> string option \<Rightarrow> string option \<Rightarrow> string option
     \<Rightarrow> int \<Rightarrow> string \<Rightarrow> command_row list \<Rightarrow> exn + command_row list" where
  "insert_command cid command_type command path content working_dir timeout now rows =
     (if \<not> sqlite_integer timeout then Inl TOO_LARGE
      else if select_by_id cid rows \<noteq> None
      then Inl (IntegrityError ''UNIQUE constraint failed: commands.id'')
      else Inr (rows @
        [\<lparr>col_id = cid, col_type = command_type, col_status = PENDING,
          col_command = command, col_path = path, col_content = content,
          col_working_dir = working_dir, col_timeout = timeout,
          col_output = None, col_error = None, col_exit_code = None,
          col_created_at = now, col_started_at = None, col_completed_at = None\<rparr>]))"

text \<open>
  \<open>UPDATE commands SET status = ?, started_at = ? WHERE id = ?\<close> with the status
  \<open>running\<close>: the statement of \<open>execute_command\<close> and of the backlog flush of
  \<open>agent_websocket\<close>. The \<open>WHERE\<close> clause names the id only.
\<close>

definition mark_running :: "string \<Rightarrow> string \<Rightarrow> command_row list \<Rightarrow> command_row list" where
  "mark_running now cid rows =
     map (\<lambda>r. if col_id r = cid
               then r\<lparr>col_status := RUNNING, col_started_at := Some now\<rparr> else r) rows"

text \<open>
  \<open>UPDATE commands SET status = ?, output = ?, error = ?, exit_code = ?,
  completed_at = ? WHERE id = ?\<close> of the receive loop. An exit code that cannot be
  bound raises. An id of \<open>None\<close> matches no row; a status of \<open>None\<close> violates
  \<open>NOT NULL\<close> on a row that matches.
\<close>

definition update_result ::
  "string option \<Rightarrow> string option \<Rightarrow> string option \<Rightarrow> int option \<Rightarrow> string \<Rightarrow> string option
     \<Rightarrow> command_row list \<Rightarrow> exn + command_row list" where
  "update_result st out err code now cid rows =
     (if (case code of None \<Rightarrow> False | Some c \<Rightarrow> \<not> sqlite_integer c) then Inl TOO_LARGE
      else
        (case cid of
           None \<Rightarrow> Inr rows
         | Some k \<Rightarrow>
             (case st of
                None \<Rightarrow> (if select_by_id k rows = None then Inr rows
                          else Inl (IntegrityError ''NOT NULL constraint failed: commands.status''))
              | Some v \<Rightarrow>
                  Inr (map (\<lambda>r. if col_id r = k
                                 then r\<lparr>col_status := v, col_output := out, col_error := err,
                                        col_exit_code := code, col_completed_at := Some now\<rparr>
                                 else r) rows))))"

text \<open>
  \<open>SELECT * FROM commands WHERE status = 'pending' ORDER BY created_at ASC\<close>.
\<close>

definition select_pending :: "command_row list \<Rightarrow> command_row list" where
  "select_pending rows = sort_key col_created_at (filter (\<lambda>r. col_status r = ''pending'') rows)"

subsection \<open>ConnectionManager\<close>

definition is_agent_connected :: "relay \<Rightarrow> bool" where
  "is_agent_connected s = (agent_connection s \<noteq> None)"

definition disconnect_agent :: "relay \<Rightarrow> relay" where
  "disconnect_agent s = s\<lparr>agent_connection := None\<rparr>"

definition connect_agent :: "websocket \<Rightarrow> relay \<Rightarrow> relay" where
  "connect_agent ws s = s\<lparr>agent_connection := Some ws\<rparr>"

text \<open>
  \<open>send_command\<close>: \<open>False\<close> without a connection, \<open>False\<close> when \<open>send_json\<close> raises,
  else the frame is delivered and the answer is \<open>True\<close>.
\<close>

definition send_command :: "execute_frame \<Rightarrow> relay \<Rightarrow> bool \<times> relay" where
  "send_command fr s =
     (case agent_connection s of
        None \<Rightarrow> (False, s)
      | Some ws \<Rightarrow>
          if transport_up ws
          then (True, s\<lparr>agent_connection := Some (ws\<lparr>delivered := delivered ws @ [fr]\<rparr>)\<rparr>)
          else (False, s))"

subsection \<open>The receive loop of \<open>agent_websocket\<close>\<close>

text \<open>
  One turn of \<open>while True\<close> on a frame that arrived at time \<open>now\<close>: a \<open>result\<close> frame
  updates the table, a \<open>ping\<close> is answered, anything else is ignored. \<open>Inl\<close> is an
  exception leaving the loop body. The socket of the loop is taken to be the one the
  manager holds.
\<close>

definition status_of_frame :: "frame \<Rightarrow> string option" where
  "status_of_frame fr =
     (case f_status fr of Absent \<Rightarrow> Some ''completed'' | Null \<Rightarrow> None | Val v \<Rightarrow> Some v)"

definition receive_frame :: "string \<Rightarrow> frame \<Rightarrow> relay \<Rightarrow> exn + relay" where
  "receive_frame now fr s =
     (if f_type fr = Some ''result'' then
        (case update_result (status_of_frame fr) (f_output fr) (f_error fr) (f_exit_code fr)
                now (f_id fr) (commands s) of
           Inl e \<Rightarrow> Inl e
         | Inr rows \<Rightarrow> Inr (s\<lparr>commands := rows\<rparr>))
      else if f_type fr = Some ''ping'' then
        (case agent_connection s of
           None \<Rightarrow> Inl (TransportError ''send on a closed socket'')
         | Some ws \<Rightarrow>
             if transport_up ws
             then Inr (s\<lparr>agent_connection := Some (ws\<lparr>pongs := Suc (pongs ws)\<rparr>)\<rparr>)
             else Inl (TransportError ''send on a closed socket''))
      else Inr s)"

text \<open>
  The loop on the frames that arrive, each with its arrival time: it runs while an
  agent is connected, and an exception ends it through \<open>disconnect_agent\<close>.
\<close>

fun receive_loop :: "(string \<times> frame) list \<Rightarrow> relay \<Rightarrow> relay" where
  "receive_loop [] s = s"
| "receive_loop ((now, fr) # rest) s =
     (if agent_connection s = None then s
      else (case receive_frame now fr s of
              Inl e \<Rightarrow> disconnect_agent s
            | Inr s' \<Rightarrow> receive_loop rest s'))"

text \<open>
  The backlog flush of \<open>agent_websocket\<close> after \<open>connect_agent\<close>: every pending row,
  oldest first, is pushed and then marked running; the answer of \<open>send_command\<close> is
  not looked at. One reading of the clock stands for the times of all the updates.
\<close>

definition frame_of_row :: "command_row \<Rightarrow> execute_frame" where
  "frame_of_row r =
     \<lparr>x_id = col_id r, x_command_type = col_type r, x_command = col_command r,
      x_path = col_path r, x_content = col_content r, x_working_dir = col_working_dir r,
      x_timeout = col_timeout r\<rparr>"

fun flush_rows :: "string \<Rightarrow> command_row list \<Rightarrow> relay \<Rightarrow> relay" where
  "flush_rows now [] s = s"
| "flush_rows now (r # rs) s =
     (let s1 = snd (send_command (frame_of_row r) s)
      in flush_rows now rs (s1\<lparr>commands := mark_running now (col_id r) (commands s1)\<rparr>))"

definition flush_pending :: "string \<Rightarrow> relay \<Rightarrow> relay" where
  "flush_pending now s = flush_rows now (select_pending (commands s)) s"

subsection \<open>\<open>execute_command\<close>\<close>

definition is_terminal :: "string \<Rightarrow> bool" where
  "is_terminal st = (st = ''completed'' \<or> st = ''failed'' \<or> st = ''timeout'')"

text \<open>The text built from a terminal row.\<close>

definition result_text :: "command_row \<Rightarrow> string" where
  "result_text row =
     (let output = or_empty (col_output row);
          error = or_empty (col_error row);
          t0 = output;
          t1 = (if error \<noteq> [] then t0 @ [CHR 0x0A] @ ''[stderr]: '' @ error else t0);
          t2 = (case col_exit_code row of
                  None \<Rightarrow> t1
                | Some c \<Rightarrow> t1 @ [CHR 0x0A] @ ''[exit_code: '' @ str_int c @ '']'')
      in if strip t2 = [] then ''(no output)'' else strip t2)"

text \<open>\<open>asyncio.sleep(0.5)\<close>: half a second passes, and the receive loop handles the
  frames that arrive meanwhile.\<close>

definition POLL_INTERVAL_MS :: nat where
  "POLL_INTERVAL_MS = 500"

definition sleep_poll :: "(string \<times> frame) list \<Rightarrow> relay \<Rightarrow> relay" where
  "sleep_poll arriving s = (receive_loop arriving s)\<lparr>slept_ms := slept_ms s + POLL_INTERVAL_MS\<rparr>"

definition TIMED_OUT_WAITING :: string where
  "TIMED_OUT_WAITING = ''Command timed out waiting for response''"

text \<open>
  The loop \<open>for _ in range(timeout * 2 + 10)\<close>, on the number of turns left. The
  schedule gives, for each sleep in turn, the frames that arrive during it; when it
  is used up nothing arrives any more.
\<close>

fun poll :: "nat \<Rightarrow> string \<Rightarrow> (string \<times> frame) list list \<Rightarrow> relay \<Rightarrow> string \<times> relay" where
  "poll 0 cid sched s = (TIMED_OUT_WAITING, s)"
| "poll (Suc n) cid sched s =
     (let s1 = sleep_poll (case sched of [] \<Rightarrow> [] | a # _ \<Rightarrow> a) s
      in case select_by_id cid (commands s1) of
           None \<Rightarrow> poll n cid (tl sched) s1
         | Some row \<Rightarrow>
             if is_terminal (col_status row) then (result_text row, s1)
             else poll n cid (tl sched) s1)"

definition NOT_CONNECTED :: string where
  "NOT_CONNECTED = ''Error: Mac agent is not connected. Please ensure the agent is running.''"

definition SEND_FAILED :: string where
  "SEND_FAILED = ''Error: Failed to send command to agent''"

text \<open>
  \<open>execute_command(command_type, timeout, **kwargs)\<close>. The token of
  \<open>secrets.token_urlsafe\<close> and the two readings of the clock are inputs; \<open>Inl\<close> is an
  exception that leaves the function. The receive loop runs during the sleeps of the
  polling loop; between the other statements nothing else acts on the state.
\<close>

definition execute_command ::
  "string \<Rightarrow> int \<Rightarrow> string option \<Rightarrow> string option \<Rightarrow> string option \<Rightarrow> string option
     \<Rightarrow> string \<Rightarrow> string \<Rightarrow> string \<Rightarrow> (string \<times> frame) list list \<Rightarrow> relay
     \<Rightarrow> (exn + string) \<times> relay" where
  "execute_command command_type timeout command path content working_dir
       command_id now now2 sched s =
     (if \<not> is_agent_connected s then (Inr NOT_CONNECTED, s)
      else
        (case insert_command command_id command_type command path content working_dir
                timeout now (commands s) of
           Inl e \<Rightarrow> (Inl e, s)
         | Inr rows \<Rightarrow>
             (let s1 = s\<lparr>commands := rows\<rparr>;
                  (success, s2) = send_command
                     \<lparr>x_id = command_id, x_command_type = command_type, x_command = command,
                      x_path = path, x_content = content, x_working_dir = working_dir,
                      x_timeout = timeout\<rparr> s1
              in if \<not> success then (Inr SEND_FAILED, s2)
                 else
                   (let s3 = s2\<lparr>commands := mark_running now2 command_id (commands s2)\<rparr>;
                        (text, s4) = poll (nat (timeout * 2 + 10)) command_id sched s3
                    in (Inr text, s4)))))"

section \<open>The agent (agent.py)\<close>

subsection \<open>Paths and the file system\<close>

text \<open>
  A resolved \<open>Path\<close> is absolute: the list of its components below the root, so
  \<open>Path("/tmp")\<close> is \<open>[''tmp'']\<close> and \<open>Path("/")\<close> is \<open>[]\<close>.
\<close>

type_synonym path = "string list"

text \<open>\<open>str(path)\<close>.\<close>

definition str_path :: "path \<Rightarrow> string" where
  "str_path p = CHR ''/'' # join ''/'' p"

text \<open>\<open>path.parents\<close>: the proper ancestors, nearest first, down to the root.\<close>

definition parents :: "path \<Rightarrow> path list" where
  "parents p = map (\<lambda>k. take k p) (rev [0..<length p])"

text \<open>
  The file system is a tree: a regular file with the text that decoding its bytes
  gives and with its size in bytes, or a directory with its entries by name.
\<close>

datatype node = File string nat | Dir "(string \<times> node) list"

fun lookup :: "node \<Rightarrow> path \<Rightarrow> node option" where
  "lookup n [] = Some n"
| "lookup n (c # cs) =
     (case n of
        File _ _ \<Rightarrow> None
      | Dir es \<Rightarrow> (case map_of es c of None \<Rightarrow> None | Some m \<Rightarrow> lookup m cs))"

text \<open>The errors of the file system calls, and the \<open>OSError\<close> each becomes.\<close>

datatype errno = ENOENT | EACCES | EEXIST | ENOTDIR | EISDIR

fun os_error :: "errno \<Rightarrow> string \<Rightarrow> exn" where
  "os_error ENOENT f = OSError 2 ''No such file or directory'' f"
| "os_error EACCES f = OSError 13 ''Permission denied'' f"
| "os_error EEXIST f = OSError 17 ''File exists'' f"
| "os_error ENOTDIR f = OSError 20 ''Not a directory'' f"
| "os_error EISDIR f = OSError 21 ''Is a directory'' f"

text \<open>
  \<open>path.mkdir(parents=True, exist_ok=True)\<close>: missing directories are created down
  the path, a directory that exists is kept, and a regular file at the path or on
  the way to it raises before anything is created. The exception names the path of
  the call.
\<close>

fun mkdir_in :: "node \<Rightarrow> path \<Rightarrow> errno + node" where
  "mkdir_in n [] =
     (case n of
        Dir _ \<Rightarrow> Inr n
      | File _ _ \<Rightarrow> Inl EEXIST)"
| "mkdir_in n (c # cs) =
     (case n of
        File _ _ \<Rightarrow> Inl ENOTDIR
      | Dir es \<Rightarrow>
          (case mkdir_in (case map_of es c of None \<Rightarrow> Dir [] | Some m \<Rightarrow> m) cs of
             Inl e \<Rightarrow> Inl e
           | Inr m' \<Rightarrow> Inr (Dir (AList.update c m' es))))"

definition mkdir_parents :: "node \<Rightarrow> path \<Rightarrow> exn + node" where
  "mkdir_parents n p =
     (case mkdir_in n p of Inl e \<Rightarrow> Inl (os_error e (str_path p)) | Inr n' \<Rightarrow> Inr n')"

text \<open>
  \<open>path.write_text(content)\<close>: the file is created or overwritten with the encoded
  text; a directory at the path, a regular file on the way or a missing parent
  raises, naming the path. On POSIX the text is written as it is; the encoding is
  UTF-8.
\<close>

fun write_in :: "node \<Rightarrow> path \<Rightarrow> string \<Rightarrow> errno + node" where
  "write_in n [] content =
     (case n of
        Dir _ \<Rightarrow> Inl EISDIR
      | File _ _ \<Rightarrow> Inr (File content (utf8_size content)))"
| "write_in n (c # cs) content =
     (case n of
        File _ _ \<Rightarrow> Inl ENOTDIR
      | Dir es \<Rightarrow>
          (case map_of es c of
             None \<Rightarrow>
               (if cs = [] then Inr (Dir (AList.update c (File content (utf8_size content)) es))
                else Inl ENOENT)
           | Some m \<Rightarrow>
               (case write_in m cs content of
                  Inl e \<Rightarrow> Inl e
                | Inr m' \<Rightarrow> Inr (Dir (AList.update c m' es)))))"

definition write_text :: "node \<Rightarrow> path \<Rightarrow> string \<Rightarrow> exn + node" where
  "write_text n p content =
     (case write_in n p content of Inl e \<Rightarrow> Inl (os_error e (str_path p)) | Inr n' \<Rightarrow> Inr n')"

text \<open>
  Reading in text mode translates the line endings \<open>\r\n\<close> and \<open>\r\<close> to \<open>\n\<close>
  (\<open>read_text\<close> opens the file with \<open>newline=None\<close>).
\<close>

fun universal_newlines :: "string \<Rightarrow> string" where
  "universal_newlines [] = []"
| "universal_newlines [c] = (if c = CHR 0x0D then [CHR 0x0A] else [c])"
| "universal_newlines (c # d # cs) =
     (if c = CHR 0x0D
      then (if d = CHR 0x0A then CHR 0x0A # universal_newlines cs
            else CHR 0x0A # universal_newlines (d # cs))
      else c # universal_newlines (d # cs))"

subsection \<open>Configuration and the machine\<close>

definition MAX_OUTPUT_SIZE :: nat where
  "MAX_OUTPUT_SIZE = 1000000"

text \<open>
  A child process as the agent sees it: the shell that
  \<open>create_subprocess_shell\<close> starts. It exits by itself after some time, if ever.
  The processes it starts in turn, its descendants, inherit its output pipes and
  hold them until they end, each after some time, if ever. The streams are given as
  decoded. The shell changes the file system in one way when it runs to its end
  and in another when it is killed. Times are in milliseconds from the start.
\<close>

record process =
  pid :: nat
  exit_after_ms :: "nat option"
  descendants :: "(nat \<times> nat option) list"
  stdout :: string
  stderr :: string
  returncode :: int
  fs_on_exit :: "node \<Rightarrow> node"
  fs_on_kill :: "node \<Rightarrow> node"

text \<open>The calls the operating system may refuse, for want of permission or otherwise.\<close>

datatype syscall = Stat | OpenRead | OpenWrite | MakeDir | ListDir

text \<open>
  What the agent's machine provides: \<open>Path.home()\<close>,
  \<open>Path(s).expanduser().resolve()\<close> (\<open>Inl\<close> when it raises), the calls on a path
  that the operating system refuses, with the exception it raises, and
  \<open>asyncio.create_subprocess_shell\<close> on a command and a working directory.
\<close>

record agent_env =
  home :: path
  resolve :: "string \<Rightarrow> exn + path"
  os_refuses :: "syscall \<Rightarrow> path \<Rightarrow> exn option"
  create_subprocess_shell :: "string \<Rightarrow> path option \<Rightarrow> exn + process"

text \<open>
  The state the handlers act on: the file system, the processes started under the
  agent that are running, and the time spent in the handlers, in milliseconds.
\<close>

record world =
  root :: node
  children :: "nat list"
  clock_ms :: nat

text \<open>
  The dict a handler returns; a key that is missing and a key holding \<open>None\<close> are
  both \<open>None\<close> here, as they are for the server's \<open>data.get\<close>.
\<close>

record result =
  res_status :: string
  res_output :: "string option"
  res_error :: "string option"
  res_exit_code :: "int option"

definition failed_with :: "string \<Rightarrow> result" where
  "failed_with msg = \<lparr>res_status = ''failed'', res_output = None, res_error = Some msg, res_exit_code = Some 1\<rparr>"

subsection \<open>Path safety\<close>

definition ALLOWED_PATHS :: "agent_env \<Rightarrow> path list" where
  "ALLOWED_PATHS env = [home env, [''tmp''], [''var'', ''tmp'']]"

definition is_path_allowed :: "agent_env \<Rightarrow> string \<Rightarrow> bool" where
  "is_path_allowed env path_str =
     (case resolve env path_str of
        Inl e \<Rightarrow> False
      | Inr path \<Rightarrow>
          list_ex (\<lambda>allowed. path = allowed \<or> allowed \<in> set (parents path)) (ALLOWED_PATHS env))"

subsection \<open>Command execution\<close>

text \<open>The latest of some times; none when one of them never comes.\<close>

fun latest :: "nat option list \<Rightarrow> nat option" where
  "latest [] = Some 0"
| "latest (None # ts) = None"
| "latest (Some t # ts) = (case latest ts of None \<Rightarrow> None | Some u \<Rightarrow> Some (max t u))"

text \<open>
  When the descendants have all let go of the output pipes, and when
  \<open>process.communicate()\<close> returns: once the shell has exited and both streams are
  at their end, that is, closed by every process that holds them.
\<close>

definition pipes_closed_ms :: "process \<Rightarrow> nat option" where
  "pipes_closed_ms p = latest (map snd (descendants p))"

definition communicate_ms :: "process \<Rightarrow> nat option" where
  "communicate_ms p = latest (exit_after_ms p # map snd (descendants p))"

text \<open>
  \<open>asyncio.wait_for(process.communicate(), timeout)\<close> returns when \<open>communicate\<close>
  returns before the timeout (in seconds) is over, and raises \<open>TimeoutError\<close>
  otherwise.
\<close>

definition finishes_within :: "process \<Rightarrow> int \<Rightarrow> bool" where
  "finishes_within p timeout =
     (case communicate_ms p of None \<Rightarrow> False | Some d \<Rightarrow> int d < 1000 * timeout)"

text \<open>The descendants that still run at a time; at \<open>None\<close>, those that never end.\<close>

definition running_at :: "nat option \<Rightarrow> (nat \<times> nat option) list \<Rightarrow> nat list" where
  "running_at t ds =
     map fst (filter (\<lambda>(q, e). case e of None \<Rightarrow> True
                                | Some d \<Rightarrow> (case t of None \<Rightarrow> False | Some u \<Rightarrow> u < d)) ds)"

text \<open>
  \<open>process.kill(); await process.wait()\<close> after the \<open>TimeoutError\<close>, which comes
  \<open>timeout\<close> seconds after the start (at once for a timeout that is not positive).
  \<open>kill\<close> signals the shell alone. When the shell has exited by itself before, its
  exit code is known and \<open>wait\<close> returns at once. Otherwise \<open>wait\<close> returns when
  the killed shell is gone and both pipes are closed, that is, when every
  descendant has let go of them; it never returns when one never does. The answer
  is the time at which \<open>wait\<close> returns.
\<close>

definition kill_and_wait_ms :: "process \<Rightarrow> int \<Rightarrow> nat option" where
  "kill_and_wait_ms p timeout =
     (if (case exit_after_ms p of None \<Rightarrow> False | Some d \<Rightarrow> int d < 1000 * timeout)
      then Some (nat (1000 * timeout))
      else (case pipes_closed_ms p of
              None \<Rightarrow> None
            | Some c \<Rightarrow> Some (max (nat (1000 * timeout)) c)))"

text \<open>The working directory of \<open>execute_shell\<close>: computed before the \<open>try\<close>.\<close>

definition shell_cwd :: "agent_env \<Rightarrow> string option \<Rightarrow> exn + path option" where
  "shell_cwd env working_dir =
     (case working_dir of
        None \<Rightarrow> Inr None
      | Some wd \<Rightarrow>
          if wd = [] then Inr None
          else (case resolve env wd of Inl e \<Rightarrow> Inl e | Inr p \<Rightarrow> Inr (Some p)))"

text \<open>
  The \<open>try\<close> block of \<open>execute_shell\<close>. The answer \<open>None\<close> says that the handler
  does not return: it waits for good in \<open>process.wait()\<close>. Afterwards the shell is
  not running, whether it has exited or was killed; its descendants that have not
  ended run on.
\<close>

definition execute_shell_try ::
  "agent_env \<Rightarrow> string \<Rightarrow> path option \<Rightarrow> int \<Rightarrow> world \<Rightarrow> result option \<times> world" where
  "execute_shell_try env command cwd timeout w =
     (case create_subprocess_shell env command cwd of
        Inl e \<Rightarrow> (Some (failed_with (str_exn e)), w)
      | Inr process \<Rightarrow>
          (if \<not> finishes_within process timeout then
                (let exited = (case exit_after_ms process of
                                 None \<Rightarrow> False | Some d \<Rightarrow> int d < 1000 * timeout);
                     back = kill_and_wait_ms process timeout;
                     w2 = w\<lparr>root := (if exited then fs_on_exit process (root w)
                                      else fs_on_kill process (root w)),
                            children := removeAll (pid process)
                                          (running_at back (descendants process) @ children w)\<rparr>
                 in case back of
                      None \<Rightarrow> (None, w2)
                    | Some t \<Rightarrow>
                        (Some \<lparr>res_status = ''timeout'', res_output = None,
                           res_error = Some (''Command timed out after '' @ str_int timeout
                                             @ '' seconds''),
                           res_exit_code = Some (- 1)\<rparr>,
                         w2\<lparr>clock_ms := clock_ms w + t\<rparr>))
              else
                (let output = stdout process;
                     error = stderr process;
                     output = (if MAX_OUTPUT_SIZE < length output
                               then take MAX_OUTPUT_SIZE output @ [CHR 0x0A] @ ''... (output truncated)''
                               else output);
                     error = (if MAX_OUTPUT_SIZE < length error
                              then take MAX_OUTPUT_SIZE error @ [CHR 0x0A] @ ''... (error truncated)''
                              else error)
                 in (Some \<lparr>res_status = (if returncode process = 0 then ''completed'' else ''failed''),
                      res_output = Some output,
                      res_error = (if error \<noteq> [] then Some error else None),
                      res_exit_code = Some (returncode process)\<rparr>,
                     w\<lparr>root := fs_on_exit process (root w),
                       children := removeAll (pid process)
                                     (running_at (communicate_ms process) (descendants process)
                                      @ children w),
                       clock_ms := clock_ms w
                         + (case communicate_ms process of None \<Rightarrow> 0 | Some d \<Rightarrow> d)\<rparr>))))"

text \<open>
  \<open>execute_shell\<close>. An exception of \<open>resolve\<close> on the working directory is raised
  outside the \<open>try\<close> and leaves the function (\<open>Inl\<close>).
\<close>

definition execute_shell ::
  "agent_env \<Rightarrow> string \<Rightarrow> string option \<Rightarrow> int \<Rightarrow> world \<Rightarrow> (exn + result) option \<times> world" where
  "execute_shell env command working_dir timeout w =
     (case shell_cwd env working_dir of
        Inl e \<Rightarrow> (Some (Inl e), w)
      | Inr cwd \<Rightarrow>
          if (case cwd of None \<Rightarrow> False | Some p \<Rightarrow> \<not> is_path_allowed env (str_path p))
          then (Some (Inr (failed_with (''Working directory not allowed: ''
                                         @ or_empty working_dir))), w)
          else (case execute_shell_try env command cwd timeout w of
                  (r, w') \<Rightarrow> (map_option Inr r, w')))"

text \<open>
  \<open>read_file\<close>. \<open>exists()\<close> and \<open>is_file()\<close> answer from the tree unless the
  operating system refuses to look; \<open>read_text\<close> opens the file for reading.
\<close>

definition read_file :: "agent_env \<Rightarrow> string \<Rightarrow> world \<Rightarrow> result \<times> world" where
  "read_file env path_str w =
     (case resolve env path_str of
        Inl e \<Rightarrow> (failed_with (str_exn e), w)
      | Inr path \<Rightarrow>
          if \<not> is_path_allowed env (str_path path)
          then (failed_with (''Path not allowed: '' @ path_str), w)
          else
            (case os_refuses env Stat path of
               Some e \<Rightarrow> (failed_with (str_exn e), w)
             | None \<Rightarrow>
                 (case lookup (root w) path of
                    None \<Rightarrow> (failed_with (''File not found: '' @ path_str), w)
                  | Some (Dir es) \<Rightarrow> (failed_with (''Not a file: '' @ path_str), w)
                  | Some (File text st_size) \<Rightarrow>
                      (case os_refuses env OpenRead path of
                         Some e \<Rightarrow> (failed_with (str_exn e), w)
                       | None \<Rightarrow>
                           (let content = universal_newlines text;
                                content = (if MAX_OUTPUT_SIZE < length content
                                           then take MAX_OUTPUT_SIZE content @ [CHR 0x0A]
                                                  @ ''... (content truncated)''
                                           else content)
                            in (\<lparr>res_status = ''completed'', res_output = Some content,
                                 res_error = None, res_exit_code = Some 0\<rparr>, w))))))"

text \<open>
  \<open>write_file\<close>. Directories made by \<open>mkdir\<close> stay when the write that follows raises.
\<close>

definition write_file :: "agent_env \<Rightarrow> string \<Rightarrow> string \<Rightarrow> world \<Rightarrow> result \<times> world" where
  "write_file env path_str content w =
     (case resolve env path_str of
        Inl e \<Rightarrow> (failed_with (str_exn e), w)
      | Inr path \<Rightarrow>
          if \<not> is_path_allowed env (str_path path)
          then (failed_with (''Path not allowed: '' @ path_str), w)
          else
            (case os_refuses env MakeDir (butlast path) of
               Some e \<Rightarrow> (failed_with (str_exn e), w)
             | None \<Rightarrow>
                 (case mkdir_parents (root w) (butlast path) of
                    Inl e \<Rightarrow> (failed_with (str_exn e), w)
                  | Inr r1 \<Rightarrow>
                      (case os_refuses env OpenWrite path of
                         Some e \<Rightarrow> (failed_with (str_exn e), w\<lparr>root := r1\<rparr>)
                       | None \<Rightarrow>
                           (case write_text r1 path content of
                              Inl e \<Rightarrow> (failed_with (str_exn e), w\<lparr>root := r1\<rparr>)
                            | Inr r2 \<Rightarrow>
                                (\<lparr>res_status = ''completed'',
                                  res_output = Some (''Written '' @ str_nat (length content)
                                                     @ '' bytes to '' @ str_path path),
                                  res_error = None, res_exit_code = Some 0\<rparr>,
                                 w\<lparr>root := r2\<rparr>))))))"

text \<open>
  One line of \<open>list_dir\<close>: the type, the size in bytes (0 unless a regular file),
  the name.
\<close>

definition entry_line :: "(string \<times> node) list \<Rightarrow> string \<Rightarrow> string" where
  "entry_line es name =
     (case map_of es name of
        Some (Dir _) \<Rightarrow> ''dir'' @ [CHR 0x09] @ str_nat 0 @ [CHR 0x09] @ name
      | Some (File text st_size) \<Rightarrow> ''file'' @ [CHR 0x09] @ str_nat st_size @ [CHR 0x09] @ name
      | None \<Rightarrow> ''file'' @ [CHR 0x09] @ str_nat 0 @ [CHR 0x09] @ name)"

text \<open>
  \<open>list_dir\<close>. A refusal to list stands for the listing and the look at each entry
  together.
\<close>

definition list_dir :: "agent_env \<Rightarrow> string \<Rightarrow> world \<Rightarrow> result \<times> world" where
  "list_dir env path_str w =
     (case resolve env path_str of
        Inl e \<Rightarrow> (failed_with (str_exn e), w)
      | Inr path \<Rightarrow>
          if \<not> is_path_allowed env (str_path path)
          then (failed_with (''Path not allowed: '' @ path_str), w)
          else
            (case os_refuses env Stat path of
               Some e \<Rightarrow> (failed_with (str_exn e), w)
             | None \<Rightarrow>
                 (case lookup (root w) path of
                    None \<Rightarrow> (failed_with (''Directory not found: '' @ path_str), w)
                  | Some (File text st_size) \<Rightarrow> (failed_with (''Not a directory: '' @ path_str), w)
                  | Some (Dir es) \<Rightarrow>
                      (case os_refuses env ListDir path of
                         Some e \<Rightarrow> (failed_with (str_exn e), w)
                       | None \<Rightarrow>
                           (let entries = map (entry_line es) (sort (map fst es))
                            in (\<lparr>res_status = ''completed'',
                                 res_output = Some (join [CHR 0x0A] entries),
                                 res_error = None, res_exit_code = Some 0\<rparr>, w))))))"




section \<open>Concrete machines for the examples\<close>

subsection \<open>Relay states\<close>

definition live_socket :: websocket where
  "live_socket = \<lparr>transport_up = True, delivered = [], pongs = 0\<rparr>"

definition dead_socket :: websocket where
  "dead_socket = \<lparr>transport_up = False, delivered = [], pongs = 0\<rparr>"

definition idle_relay :: relay where
  "idle_relay = \<lparr>commands = [], agent_connection = None, slept_ms = 0\<rparr>"

definition live_relay :: relay where
  "live_relay = \<lparr>commands = [], agent_connection = Some live_socket, slept_ms = 0\<rparr>"

definition stuck_relay :: relay where
  "stuck_relay = \<lparr>commands = [], agent_connection = Some dead_socket, slept_ms = 0\<rparr>"

definition done_row :: command_row where
  "done_row = \<lparr>col_id = ''c1'', col_type = ''shell'', col_status = ''completed'',
      col_command = Some ''echo hi'', col_path = None, col_content = None,
      col_working_dir = None, col_timeout = 5,
      col_output = Some ''hi'', col_error = None, col_exit_code = Some 0,
      col_created_at = ''t0'', col_started_at = None, col_completed_at = Some ''t1''\<rparr>"



text \<open>A result frame that carries no \<open>status\<close>, and one whose exit code is \<open>2 ** 63\<close>.\<close>

definition bare_result :: frame where
  "bare_result = \<lparr>f_type = Some ''result'', f_id = Some ''c1'', f_status = Absent,
      f_output = Some ''hi'', f_error = None, f_exit_code = Some 0\<rparr>"


text \<open>A command the agent never answers, and one it answers during the second sleep.\<close>

definition unanswered :: "int \<Rightarrow> (exn + string) \<times> relay" where
  "unanswered timeout =
     execute_command ''shell'' timeout (Some ''sleep 100'') None None None
       ''c1'' ''t0'' ''t1'' [] live_relay"

definition answered :: "(exn + string) \<times> relay" where
  "answered =
     execute_command ''shell'' 1 (Some ''echo hi'') None None None
       ''c1'' ''t0'' ''t1'' [[], [(''t2'', bare_result)]] live_relay"

text \<open>
  The budget in the words of the specification, \<open>timeout * 2 + grace\<close> seconds, in
  milliseconds.
\<close>

definition spec_wait_budget_ms :: "int \<Rightarrow> int \<Rightarrow> int" where
  "spec_wait_budget_ms timeout grace = 1000 * (timeout * 2 + grace)"

subsection \<open>An agent machine\<close>

text \<open>
  \<open>expanduser().resolve()\<close> on a machine without symbolic links and without other
  users: a string that holds a NUL character raises, \<open>~\<close> is the home directory,
  a relative path starts at the working directory, and \<open>.\<close>, \<open>..\<close> and empty
  components are resolved.
\<close>

fun split_slash :: "string \<Rightarrow> string list" where
  "split_slash [] = [[]]"
| "split_slash (c # cs) =
     (if c = CHR ''/'' then [] # split_slash cs
      else (case split_slash cs of [] \<Rightarrow> [[c]] | w # ws \<Rightarrow> (c # w) # ws))"

fun normalize :: "path \<Rightarrow> string list \<Rightarrow> path" where
  "normalize acc [] = acc"
| "normalize acc (c # cs) =
     (if c = [] \<or> c = ''.'' then normalize acc cs
      else if c = ''..'' then normalize (butlast acc) cs
      else normalize (acc @ [c]) cs)"

definition lexical_resolve :: "path \<Rightarrow> path \<Rightarrow> string \<Rightarrow> exn + path" where
  "lexical_resolve home_dir cwd s =
     (if CHR 0x00 \<in> set s then Inl (ValueError ''embedded null byte'')
      else if s \<noteq> [] \<and> hd s = CHR ''~'' then
        (if takeWhile (\<lambda>c. c \<noteq> CHR ''/'') s = ''~''
         then Inr (normalize home_dir (split_slash (dropWhile (\<lambda>c. c \<noteq> CHR ''/'') s)))
         else Inl (RuntimeError ''Could not determine home directory.''))
      else if s \<noteq> [] \<and> hd s = CHR ''/'' then Inr (normalize [] (split_slash s))
      else Inr (normalize cwd (split_slash s)))"

text \<open>
  Shell commands, under a shell that starts a child for every program it runs:
  \<open>exec sleep 9\<close>, where the shell itself becomes the program; \<open>sleep 9\<close>, where
  the shell waits for its child; a command made of built-ins that fails after 20
  milliseconds; \<open>sleep 1000 & sleep 9\<close>, which leaves a child behind that holds the
  pipes; \<open>touch x\<close>, which makes the file \<open>x\<close> where it runs, in \<open>/opt/agent\<close>.
\<close>

definition slow_process :: process where
  "slow_process = \<lparr>pid = 7, exit_after_ms = Some 9000, descendants = [],
      stdout = ''late'', stderr = [],
      returncode = 0, fs_on_exit = (\<lambda>n. n), fs_on_kill = (\<lambda>n. n)\<rparr>"

definition failing_process :: process where
  "failing_process = \<lparr>pid = 8, exit_after_ms = Some 20, descendants = [],
      stdout = ''partial'', stderr = ''boom'',
      returncode = 2, fs_on_exit = (\<lambda>n. n), fs_on_kill = (\<lambda>n. n)\<rparr>"

definition orphaning_process :: process where
  "orphaning_process = \<lparr>pid = 9, exit_after_ms = Some 9000,
      descendants = [(71, None), (73, Some 9000)],
      stdout = [], stderr = [],
      returncode = 0, fs_on_exit = (\<lambda>n. n), fs_on_kill = (\<lambda>n. n)\<rparr>"

definition forked_process :: process where
  "forked_process = \<lparr>pid = 10, exit_after_ms = Some 9000, descendants = [(72, Some 9000)],
      stdout = [], stderr = [],
      returncode = 0, fs_on_exit = (\<lambda>n. n), fs_on_kill = (\<lambda>n. n)\<rparr>"

definition touch_process :: process where
  "touch_process = \<lparr>pid = 11, exit_after_ms = Some 10, descendants = [(74, Some 10)],
      stdout = [], stderr = [], returncode = 0,
      fs_on_exit = (\<lambda>n. case write_in n [''opt'', ''agent'', ''x''] [] of
                           Inl e \<Rightarrow> n | Inr m \<Rightarrow> m),
      fs_on_kill = (\<lambda>n. n)\<rparr>"

definition demo_spawn :: "string \<Rightarrow> path option \<Rightarrow> exn + process" where
  "demo_spawn command cwd =
     (if command = ''exec sleep 9'' then Inr slow_process
      else if command = ''sleep 9'' then Inr forked_process
      else if command = ''echo partial; echo boom >&2; exit 2'' then Inr failing_process
      else if command = ''sleep 1000 & sleep 9'' then Inr orphaning_process
      else if command = ''touch x'' then Inr touch_process
      else Inl (OSError 2 ''No such file or directory'' ''/bin/sh''))"

text \<open>
  A machine whose user may write the file \<open>/tmp/secret\<close> but not read it, with the
  agent started in the home directory; and the same machine with the agent started
  in \<open>/opt/agent\<close>.
\<close>

definition demo_refuses :: "syscall \<Rightarrow> path \<Rightarrow> exn option" where
  "demo_refuses call p =
     (if call = OpenRead \<and> p = [''tmp'', ''secret'']
      then Some (os_error EACCES ''/tmp/secret'') else None)"

definition demo_env :: agent_env where
  "demo_env = \<lparr>home = [''Users'', ''me''],
      resolve = lexical_resolve [''Users'', ''me''] [''Users'', ''me''],
      os_refuses = demo_refuses,
      create_subprocess_shell = demo_spawn\<rparr>"

definition daemon_env :: agent_env where
  "daemon_env = \<lparr>home = [''Users'', ''me''],
      resolve = lexical_resolve [''Users'', ''me''] [''opt'', ''agent''],
      os_refuses = demo_refuses,
      create_subprocess_shell = demo_spawn\<rparr>"

definition demo_world :: world where
  "demo_world = \<lparr>root = Dir [(''tmp'', Dir [(''notes'', File ''old'' 3),
                                             (''secret'', File ''key'' 3)]),
                              (''etc'', Dir [(''passwd'', File ''root:x:0:0'' 10)]),
                              (''opt'', Dir [(''agent'', Dir [])]),
                              (''Users'', Dir [(''me'', Dir [])])],
                 children = [], clock_ms = 0\<rparr>"

text \<open>
  A directory \<open>/tmp/big\<close> of 5000 empty files, each named by 250 letters and its
  number.
\<close>

definition big_name :: "nat \<Rightarrow> string" where
  "big_name i = replicate 250 (CHR ''a'') @ str_nat i"

definition big_entries :: "(string \<times> node) list" where
  "big_entries = map (\<lambda>i. (big_name i, File [] 0)) [0..<5000]"

definition big_world :: world where
  "big_world = \<lparr>root = Dir [(''tmp'', Dir [(''big'', Dir big_entries)])], children = [],
                clock_ms = 0\<rparr>"



section \<open>Properties of the relay server\<close>

subsection \<open>Statements on the table\<close>

lemma select_by_id_append_fresh:
  "select_by_id cid rows = None \<Longrightarrow> col_id r = cid \<Longrightarrow> select_by_id cid (rows @ [r]) = Some r"
  by (induction rows) (auto simp: select_by_id_def split: if_splits)

lemma find_map_update:
  "find (\<lambda>r. col_id r = k) rows = Some r \<Longrightarrow> (\<And>x. col_id (g x) = col_id x) \<Longrightarrow>
   find (\<lambda>r. col_id r = k) (map (\<lambda>r. if col_id r = k then g r else r) rows) = Some (g r)"
  by (induction rows) (auto split: if_splits)

lemma find_map_none:
  "find (\<lambda>r. col_id r = k) rows = None \<Longrightarrow>
   map (\<lambda>r. if col_id r = k then g r else r) rows = rows"
  by (induction rows) (auto split: if_splits)

text \<open>
  When the \<open>INSERT\<close> raises, for a timeout it cannot store or for an id already in
  the table, \<open>execute_command\<close> ends there: nothing is stored and nothing is pushed.
\<close>

lemma execute_command_overflow:
  "agent_connection s \<noteq> None \<Longrightarrow> \<not> sqlite_integer timeout \<Longrightarrow>
   execute_command command_type timeout command path content working_dir cid now later sched s
     = (Inl TOO_LARGE, s)"
  by (simp add: execute_command_def is_agent_connected_def insert_command_def)

lemma execute_command_repeated_id:
  "agent_connection s \<noteq> None \<Longrightarrow> sqlite_integer timeout \<Longrightarrow>
   select_by_id cid (commands s) \<noteq> None \<Longrightarrow>
   execute_command command_type timeout command path content working_dir cid now later sched s
     = (Inl (IntegrityError ''UNIQUE constraint failed: commands.id''), s)"
  by (simp add: execute_command_def is_agent_connected_def insert_command_def)

subsection \<open>The polling loop\<close>

lemma sleep_poll_nothing:
  "sleep_poll [] s = s\<lparr>slept_ms := slept_ms s + POLL_INTERVAL_MS\<rparr>"
  by (simp add: sleep_poll_def)

lemma poll_slept_le:
  "slept_ms (snd (poll n cid sched s)) \<le> slept_ms s + POLL_INTERVAL_MS * n"
proof (induction n arbitrary: sched s)
  case 0
  then show ?case by simp
next
  case (Suc n)
  let ?s1 = "sleep_poll (case sched of [] \<Rightarrow> [] | a # _ \<Rightarrow> a) s"
  have s1: "slept_ms ?s1 = slept_ms s + POLL_INTERVAL_MS"
    by (simp add: sleep_poll_def)
  have "slept_ms (snd (poll n cid (tl sched) ?s1)) \<le> slept_ms ?s1 + POLL_INTERVAL_MS * n"
    by (rule Suc.IH)
  then show ?case
    using s1 by (auto simp: Let_def split: option.splits)
qed

text \<open>
  The loop ends in one of two ways: on a terminal row, seen after a sleep, with its
  text; or with the fixed message after all \<open>n\<close> sleeps.
\<close>

lemma poll_outcome:
  "poll n cid sched s = (msg, s') \<Longrightarrow>
     (0 < n \<and> (\<exists>row. select_by_id cid (commands s') = Some row \<and> is_terminal (col_status row)
                \<and> msg = result_text row))
   \<or> (msg = TIMED_OUT_WAITING \<and> slept_ms s' = slept_ms s + POLL_INTERVAL_MS * n)"
proof (induction n arbitrary: sched s)
  case 0
  then show ?case by simp
next
  case (Suc n)
  let ?s1 = "sleep_poll (case sched of [] \<Rightarrow> [] | a # _ \<Rightarrow> a) s"
  have s1: "slept_ms ?s1 = slept_ms s + POLL_INTERVAL_MS"
    by (simp add: sleep_poll_def)
  show ?case
  proof (cases "select_by_id cid (commands ?s1)")
    case None
    with Suc.prems have p: "poll n cid (tl sched) ?s1 = (msg, s')" by (simp add: Let_def)
    from Suc.IH[OF p] s1 show ?thesis by auto
  next
    case (Some row)
    show ?thesis
    proof (cases "is_terminal (col_status row)")
      case True
      with Some Suc.prems show ?thesis by (auto simp: Let_def)
    next
      case False
      with Some Suc.prems have p: "poll n cid (tl sched) ?s1 = (msg, s')" by (simp add: Let_def)
      from Suc.IH[OF p] s1 show ?thesis by auto
    qed
  qed
qed

lemma poll_no_frames:
  "select_by_id cid (commands s) = Some row \<Longrightarrow> \<not> is_terminal (col_status row) \<Longrightarrow>
   poll n cid [] s = (TIMED_OUT_WAITING, s\<lparr>slept_ms := slept_ms s + POLL_INTERVAL_MS * n\<rparr>)"
proof (induction n arbitrary: s)
  case 0
  then show ?case by simp
next
  case (Suc n)
  let ?s1 = "s\<lparr>slept_ms := slept_ms s + POLL_INTERVAL_MS\<rparr>"
  have sel: "select_by_id cid (commands ?s1) = Some row"
    using Suc.prems(1) by simp
  have "poll n cid [] ?s1
          = (TIMED_OUT_WAITING, ?s1\<lparr>slept_ms := slept_ms ?s1 + POLL_INTERVAL_MS * n\<rparr>)"
    using sel Suc.prems(2) by (rule Suc.IH)
  then show ?case
    using sel Suc.prems(2) by (simp add: sleep_poll_nothing add.assoc)
qed

lemma unanswered_slept:
  assumes fits: "sqlite_integer timeout"
  shows "fst (unanswered timeout) = Inr TIMED_OUT_WAITING
   \<and> slept_ms (snd (unanswered timeout)) = 500 * nat (timeout * 2 + 10)"
proof -
  define s3 where "s3 = live_relay\<lparr>agent_connection :=
       Some (live_socket\<lparr>delivered := delivered live_socket @
          [\<lparr>x_id = ''c1'', x_command_type = ''shell'', x_command = Some ''sleep 100'',
            x_path = None, x_content = None, x_working_dir = None, x_timeout = timeout\<rparr>]\<rparr>),
     commands := [\<lparr>col_id = ''c1'', col_type = ''shell'', col_status = ''running'',
          col_command = Some ''sleep 100'', col_path = None, col_content = None,
          col_working_dir = None, col_timeout = timeout,
          col_output = None, col_error = None, col_exit_code = None,
          col_created_at = ''t0'', col_started_at = Some ''t1'', col_completed_at = None\<rparr>]\<rparr>"
  have u: "unanswered timeout
             = (case poll (nat (timeout * 2 + 10)) ''c1'' [] s3 of (t, s4) \<Rightarrow> (Inr t, s4))"
    using fits
    by (simp add: unanswered_def execute_command_def is_agent_connected_def live_relay_def
        live_socket_def insert_command_def select_by_id_def send_command_def mark_running_def
        PENDING_def RUNNING_def s3_def)
  have sel: "select_by_id ''c1'' (commands s3) = Some (hd (commands s3))"
    by (simp add: s3_def select_by_id_def)
  have nt: "\<not> is_terminal (col_status (hd (commands s3)))"
    by (simp add: s3_def is_terminal_def)
  have z: "slept_ms s3 = 0" by (simp add: s3_def live_relay_def)
  show ?thesis
    unfolding u poll_no_frames[OF sel nt] by (simp add: z POLL_INTERVAL_MS_def)
qed

lemma answered_text:
  "fst answered = Inr (''hi'' @ [CHR 0x0A] @ ''[exit_code: 0]'')"
  by code_simp

lemma answered_slept: "slept_ms (snd answered) = 1000"
  by code_simp

subsection \<open>C1: the bounded wait\<close>

text \<open>
  C1, as stated, gives the wait a wall-clock budget of \<open>timeout * 2\<close> plus a fixed
  grace period and calls it the maximum wait. The loop makes \<open>timeout * 2 + 10\<close>
  turns of half a second each. A command with a timeout of 1 second that is never
  answered is given up after 6 seconds of sleep, not after \<open>1 * 2 + 10 = 12\<close>; with
  a timeout of 2 seconds after 7, so one second more of timeout is one second more
  of waiting, where \<open>timeout * 2\<close> plus any fixed grace period would give two.
\<close>

theorem wait_budget_counterexample:
  "fst (unanswered 1) = Inr TIMED_OUT_WAITING
   \<and> int (slept_ms (snd (unanswered 1))) = 6000
   \<and> int (slept_ms (snd (unanswered 1))) \<noteq> spec_wait_budget_ms 1 10
   \<and> fst (unanswered 2) = Inr TIMED_OUT_WAITING
   \<and> int (slept_ms (snd (unanswered 2))) = 7000
   \<and> int (slept_ms (snd (unanswered 2))) - int (slept_ms (snd (unanswered 1)))
        \<noteq> spec_wait_budget_ms 2 10 - spec_wait_budget_ms 1 10"
  using unanswered_slept[of 1] unanswered_slept[of 2]
  by (simp add: spec_wait_budget_ms_def sqlite_integer_def)

text \<open>
  C1, amended: for a timeout that the \<open>INSERT\<close> can store (a signed 64-bit
  integer), once the command is pushed, \<open>execute_command\<close> looks at the record at
  most \<open>timeout * 2 + 10\<close> times (not at all when that is not positive), each time
  after a sleep of half a second, so it sleeps at most \<open>timeout + 5\<close> seconds in all.
  It returns either the text of a terminal record it has seen, or, after the last
  of these sleeps and no earlier, the literal \<open>Command timed out waiting for
  response\<close>. (With any other timeout the \<open>INSERT\<close> raises and nothing is pushed:
  \<open>execute_command_overflow\<close>.)
\<close>

theorem wait_budget:
  assumes "agent_connection s = Some ws" and "transport_up ws"
    and "select_by_id cid (commands s) = None"
    and "sqlite_integer timeout"
    and "execute_command command_type timeout command path content working_dir
           cid now later sched s = (res, s')"
  shows "slept_ms s' \<le> slept_ms s + 500 * nat (timeout * 2 + 10)
       \<and> int (slept_ms s') \<le> int (slept_ms s) + max 0 (1000 * (timeout + 5))
       \<and> ((\<exists>row. select_by_id cid (commands s') = Some row \<and> is_terminal (col_status row)
                  \<and> res = Inr (result_text row))
          \<or> (res = Inr TIMED_OUT_WAITING
              \<and> slept_ms s' = slept_ms s + 500 * nat (timeout * 2 + 10)))"
proof -
  define fr where "fr = \<lparr>x_id = cid, x_command_type = command_type, x_command = command,
                      x_path = path, x_content = content, x_working_dir = working_dir,
                      x_timeout = timeout\<rparr>"
  define rows where "rows = commands s @
        [\<lparr>col_id = cid, col_type = command_type, col_status = PENDING,
          col_command = command, col_path = path, col_content = content,
          col_working_dir = working_dir, col_timeout = timeout,
          col_output = None, col_error = None, col_exit_code = None,
          col_created_at = now, col_started_at = None, col_completed_at = None\<rparr>]"
  define s3 where "s3 = s\<lparr>agent_connection := Some (ws\<lparr>delivered := delivered ws @ [fr]\<rparr>),
                          commands := mark_running later cid rows\<rparr>"
  have p: "poll (nat (timeout * 2 + 10)) cid sched s3 = (case res of Inr t \<Rightarrow> t, s')
           \<and> (\<exists>t. res = Inr t)"
    using assms
    by (auto simp: execute_command_def is_agent_connected_def insert_command_def
        send_command_def fr_def rows_def s3_def Let_def split: prod.splits)
  then obtain t where t: "res = Inr t" and pt: "poll (nat (timeout * 2 + 10)) cid sched s3 = (t, s')"
    by auto
  have s3: "slept_ms s3 = slept_ms s" by (simp add: s3_def)
  have le: "slept_ms s' \<le> slept_ms s + 500 * nat (timeout * 2 + 10)"
    using poll_slept_le[of "nat (timeout * 2 + 10)" cid sched s3] pt s3
    by (simp add: POLL_INTERVAL_MS_def)
  have le2: "int (slept_ms s') \<le> int (slept_ms s) + max 0 (1000 * (timeout + 5))"
    using le by (cases "0 \<le> timeout * 2 + 10") auto
  from poll_outcome[OF pt] t s3
  have "(\<exists>row. select_by_id cid (commands s') = Some row \<and> is_terminal (col_status row)
                  \<and> res = Inr (result_text row))
          \<or> (res = Inr TIMED_OUT_WAITING
              \<and> slept_ms s' = slept_ms s + 500 * nat (timeout * 2 + 10))"
    by (auto simp: POLL_INTERVAL_MS_def)
  with le le2 show ?thesis by blast
qed

text \<open>
  The amended C1 on a command with a timeout of 1 second that the agent answers
  during the second sleep: the text comes back after one second, within the budget
  of six.
\<close>

theorem wait_budget_witness:
  "agent_connection live_relay = Some live_socket \<and> transport_up live_socket
   \<and> select_by_id ''c1'' (commands live_relay) = None
   \<and> sqlite_integer 1
   \<and> slept_ms (snd answered) \<le> slept_ms live_relay + 500 * nat (1 * 2 + 10)
   \<and> int (slept_ms (snd answered)) \<le> int (slept_ms live_relay) + max 0 (1000 * (1 + 5))
   \<and> fst answered = Inr (''hi'' @ [CHR 0x0A] @ ''[exit_code: 0]'')
   \<and> slept_ms (snd answered) = 1000"
proof -
  have h1: "agent_connection live_relay = Some live_socket" by (simp add: live_relay_def)
  have h2: "transport_up live_socket" by (simp add: live_socket_def)
  have h3: "select_by_id ''c1'' (commands live_relay) = None"
    by (simp add: live_relay_def select_by_id_def)
  have hf: "sqlite_integer 1" by (simp add: sqlite_integer_def)
  have h4: "execute_command ''shell'' 1 (Some ''echo hi'') None None None
       ''c1'' ''t0'' ''t1'' [[], [(''t2'', bare_result)]] live_relay = (fst answered, snd answered)"
    by (simp add: answered_def)
  from wait_budget[OF h1 h2 h3 hf h4] h1 h2 h3 hf answered_text answered_slept
  show ?thesis by simp
qed

subsection \<open>C2: the update to \<open>running\<close>\<close>

text \<open>
  C2, as stated, makes the update to \<open>running\<close> a no-op on a record that is already
  terminal. The statement selects by id alone: on the completed record \<open>done_row\<close> it
  sets the status back to \<open>running\<close>.
\<close>

theorem mark_running_terminal_counterexample:
  "is_terminal (col_status done_row)
   \<and> select_by_id ''c1'' [done_row] = Some done_row
   \<and> map col_status (mark_running ''t2'' ''c1'' [done_row]) = [''running'']
   \<and> mark_running ''t2'' ''c1'' [done_row] \<noteq> [done_row]"
  by (simp add: done_row_def is_terminal_def select_by_id_def mark_running_def RUNNING_def)

text \<open>
  C2, amended: the update to \<open>running\<close> is a no-op when no record has the id. On a
  record with the id, whatever its status, it sets the status to \<open>running\<close> and
  \<open>started_at\<close> to the time of the update. It never changes the output, the error or
  the exit code of any record, nor any field of a record with another id.
\<close>

theorem mark_running_effect:
  "(select_by_id cid rows = None \<longrightarrow> mark_running now cid rows = rows)
   \<and> (\<forall>r. select_by_id cid rows = Some r \<longrightarrow>
          select_by_id cid (mark_running now cid rows)
            = Some (r\<lparr>col_status := ''running'', col_started_at := Some now\<rparr>))
   \<and> map col_output (mark_running now cid rows) = map col_output rows
   \<and> map col_error (mark_running now cid rows) = map col_error rows
   \<and> map col_exit_code (mark_running now cid rows) = map col_exit_code rows
   \<and> map col_id (mark_running now cid rows) = map col_id rows
   \<and> filter (\<lambda>r. col_id r \<noteq> cid) (mark_running now cid rows)
       = filter (\<lambda>r. col_id r \<noteq> cid) rows"
proof -
  have a: "select_by_id cid rows = None \<longrightarrow> mark_running now cid rows = rows"
    unfolding select_by_id_def mark_running_def by (auto dest: find_map_none)
  have b: "\<forall>r. select_by_id cid rows = Some r \<longrightarrow>
          select_by_id cid (mark_running now cid rows)
            = Some (r\<lparr>col_status := ''running'', col_started_at := Some now\<rparr>)"
    unfolding select_by_id_def mark_running_def RUNNING_def
    by (auto intro!: find_map_update)
  have c: "map col_output (mark_running now cid rows) = map col_output rows"
    by (simp add: mark_running_def)
  have d: "map col_error (mark_running now cid rows) = map col_error rows"
    by (simp add: mark_running_def)
  have e: "map col_exit_code (mark_running now cid rows) = map col_exit_code rows"
    by (simp add: mark_running_def)
  have f: "map col_id (mark_running now cid rows) = map col_id rows"
    by (simp add: mark_running_def)
  have g: "filter (\<lambda>r. col_id r \<noteq> cid) (mark_running now cid rows)
       = filter (\<lambda>r. col_id r \<noteq> cid) rows"
    by (induction rows) (auto simp: mark_running_def)
  from a b c d e f g show ?thesis by blast
qed

text \<open>
  The amended C2 on a table that holds the completed record \<open>c1\<close>: the update for
  \<open>c1\<close> sets its status and start time and keeps its result; the update for the
  missing id \<open>c9\<close> changes nothing.
\<close>

theorem mark_running_effect_witness:
  "select_by_id ''c1'' [done_row] = Some done_row
   \<and> select_by_id ''c1'' (mark_running ''t2'' ''c1'' [done_row])
       = Some (done_row\<lparr>col_status := ''running'', col_started_at := Some ''t2''\<rparr>)
   \<and> map col_output (mark_running ''t2'' ''c1'' [done_row]) = [Some ''hi'']
   \<and> map col_exit_code (mark_running ''t2'' ''c1'' [done_row]) = [Some 0]
   \<and> select_by_id ''c9'' [done_row] = None
   \<and> mark_running ''t2'' ''c9'' [done_row] = [done_row]"
proof -
  have h1: "select_by_id ''c1'' [done_row] = Some done_row"
    by (simp add: select_by_id_def done_row_def)
  have h2: "select_by_id ''c9'' [done_row] = None"
    by (simp add: select_by_id_def done_row_def)
  have o: "map col_output [done_row] = [Some ''hi'']" "map col_exit_code [done_row] = [Some 0]"
    by (simp_all add: done_row_def)
  from mark_running_effect[of "''c1''" "[done_row]" "''t2''"]
       mark_running_effect[of "''c9''" "[done_row]" "''t2''"] h1 h2 o
  show ?thesis by simp
qed

subsection \<open>C3: no agent connected\<close>

text \<open>
  C3: when no agent session is active, \<open>execute_command\<close> returns the fixed message
  that the agent is not connected, at once, and the state, with the table of
  commands in it, is what it was: no record is created.
\<close>

theorem not_connected_no_record:
  "agent_connection s = None \<Longrightarrow>
   execute_command command_type timeout command path content working_dir cid now later sched s
     = (Inr ''Error: Mac agent is not connected. Please ensure the agent is running.'', s)"
  by (simp add: execute_command_def is_agent_connected_def NOT_CONNECTED_def)

text \<open>C3 on a relay without an agent and with an empty table.\<close>

theorem not_connected_no_record_witness:
  "agent_connection idle_relay = None
   \<and> execute_command ''read_file'' 60 None (Some ''~/notes'') None None ''c1'' ''t0'' ''t1'' []
        idle_relay
     = (Inr ''Error: Mac agent is not connected. Please ensure the agent is running.'', idle_relay)
   \<and> commands idle_relay = []"
proof -
  have h: "agent_connection idle_relay = None" by (simp add: idle_relay_def)
  from not_connected_no_record[OF h] h show ?thesis by (simp add: idle_relay_def)
qed

subsection \<open>C8: the push fails\<close>

text \<open>
  C8: when an agent session is active but the push fails, \<open>execute_command\<close> returns
  the error message of the failed send, and the record it has just created is in
  the table as it was inserted: status \<open>pending\<close>, \<open>started_at\<close> unset, no result.
  The update to \<open>running\<close> is not reached. The push is reached when the \<open>INSERT\<close>
  before it has gone through, that is, for a new id and a timeout that it can
  store; otherwise the \<open>INSERT\<close> raises, no record is created and nothing is pushed
  (\<open>execute_command_overflow\<close>, \<open>execute_command_repeated_id\<close>).
\<close>

theorem push_fails_record_pending:
  assumes "agent_connection s = Some ws" and "\<not> transport_up ws"
    and "select_by_id cid (commands s) = None"
    and "sqlite_integer timeout"
    and "row = \<lparr>col_id = cid, col_type = command_type, col_status = ''pending'',
          col_command = command, col_path = path, col_content = content,
          col_working_dir = working_dir, col_timeout = timeout,
          col_output = None, col_error = None, col_exit_code = None,
          col_created_at = now, col_started_at = None, col_completed_at = None\<rparr>"
  shows "execute_command command_type timeout command path content working_dir
                 cid now later sched s
               = (Inr ''Error: Failed to send command to agent'',
                  s\<lparr>commands := commands s @ [row]\<rparr>)
         \<and> select_by_id cid (commands s @ [row]) = Some row
         \<and> col_status row = ''pending'' \<and> col_started_at row = None"
  using assms
  by (simp add: execute_command_def is_agent_connected_def insert_command_def send_command_def
      select_by_id_append_fresh PENDING_def SEND_FAILED_def)

text \<open>C8 on a relay whose agent socket is still referenced but no longer sends.\<close>

theorem push_fails_record_pending_witness:
  "agent_connection stuck_relay = Some dead_socket \<and> \<not> transport_up dead_socket
   \<and> select_by_id ''c1'' (commands stuck_relay) = None
   \<and> sqlite_integer 5
   \<and> fst (execute_command ''shell'' 5 (Some ''echo hi'') None None None ''c1'' ''t0'' ''t1'' []
            stuck_relay) = Inr ''Error: Failed to send command to agent''
   \<and> map col_status (commands (snd (execute_command ''shell'' 5 (Some ''echo hi'') None None None
            ''c1'' ''t0'' ''t1'' [] stuck_relay))) = [''pending'']
   \<and> map col_started_at (commands (snd (execute_command ''shell'' 5 (Some ''echo hi'') None None
            None ''c1'' ''t0'' ''t1'' [] stuck_relay))) = [None]"
proof -
  have h1: "agent_connection stuck_relay = Some dead_socket" by (simp add: stuck_relay_def)
  have h2: "\<not> transport_up dead_socket" by (simp add: dead_socket_def)
  have h3: "select_by_id ''c1'' (commands stuck_relay) = None"
    by (simp add: stuck_relay_def select_by_id_def)
  have hf: "sqlite_integer 5" by (simp add: sqlite_integer_def)
  have c: "commands stuck_relay = []" by (simp add: stuck_relay_def)
  from push_fails_record_pending[where s = stuck_relay and ws = dead_socket and cid = "''c1''"
      and command_type = "''shell''" and command = "Some ''echo hi''" and path = None
      and content = None and working_dir = None and timeout = 5 and now = "''t0''"
      and later = "''t1''" and sched = "[]", OF h1 h2 h3 hf refl] h1 h2 h3 hf c
  show ?thesis by simp
qed

subsection \<open>C10: a result frame without a status\<close>





section \<open>Properties of the agent\<close>

lemmas demo_defs =
  demo_env_def daemon_env_def demo_world_def demo_spawn_def demo_refuses_def
  lexical_resolve_def str_path_def is_path_allowed_def ALLOWED_PATHS_def parents_def
  slow_process_def failing_process_def orphaning_process_def forked_process_def
  touch_process_def

subsection \<open>Paths\<close>

text \<open>
  \<open>allowed in path.parents\<close> says that the path lies properly below \<open>allowed\<close>.
\<close>

lemma parents_iff: "a \<in> set (parents p) \<longleftrightarrow> (\<exists>r. r \<noteq> [] \<and> p = a @ r)"
proof
  assume "a \<in> set (parents p)"
  then obtain k where k: "k < length p" and a: "a = take k p"
    by (auto simp: parents_def)
  have "p = a @ drop k p" by (simp add: a)
  moreover have "drop k p \<noteq> []" using k by simp
  ultimately show "\<exists>r. r \<noteq> [] \<and> p = a @ r" by blast
next
  assume "\<exists>r. r \<noteq> [] \<and> p = a @ r"
  then obtain r where r: "r \<noteq> []" and p: "p = a @ r" by blast
  have "length a < length p" using r p by simp
  moreover have "a = take (length a) p" using p by simp
  ultimately have "a \<in> (\<lambda>k. take k p) ` {0..<length p}"
    by (metis atLeastLessThan_iff image_eqI le0)
  then show "a \<in> set (parents p)"
    by (simp add: parents_def)
qed

text \<open>
  The gate accepts a string exactly when it resolves to a root of the allow-list or
  to a path below one.
\<close>

lemma is_path_allowed_iff:
  assumes "resolve env s = Inr p"
  shows "is_path_allowed env s \<longleftrightarrow> (\<exists>a \<in> set (ALLOWED_PATHS env). \<exists>r. p = a @ r)"
proof -
  have "is_path_allowed env s
          \<longleftrightarrow> (\<exists>a \<in> set (ALLOWED_PATHS env). p = a \<or> a \<in> set (parents p))"
    using assms by (simp add: is_path_allowed_def list_ex_iff)
  also have "\<dots> \<longleftrightarrow> (\<exists>a \<in> set (ALLOWED_PATHS env). \<exists>r. p = a @ r)"
    unfolding parents_iff by (metis append_Nil2)
  finally show ?thesis .
qed

subsection \<open>C4: paths outside the allow-list\<close>

text \<open>
  C4, as stated, has \<open>execute_shell\<close> reject every working directory that resolves
  outside the allow-list. With the agent started in \<open>/opt/agent\<close>, the empty string
  resolves to \<open>/opt/agent\<close>, outside the allow-list, and \<open>read_file\<close> rejects it.
  \<open>execute_shell\<close> takes an empty working directory for none (\<open>if working_dir:\<close>),
  does not ask the gate and runs the command where the agent stands: \<open>touch x\<close>
  completes and the file \<open>/opt/agent/x\<close> is there afterwards.
\<close>

theorem outside_roots_counterexample:
  "resolve daemon_env [] = Inr [''opt'', ''agent'']
   \<and> resolve daemon_env (str_path [''opt'', ''agent'']) = Inr [''opt'', ''agent'']
   \<and> ALLOWED_PATHS daemon_env = [[''Users'', ''me''], [''tmp''], [''var'', ''tmp'']]
   \<and> fst (read_file daemon_env [] demo_world)
       = \<lparr>res_status = ''failed'', res_output = None,
          res_error = Some ''Path not allowed: '', res_exit_code = Some 1\<rparr>
   \<and> fst (execute_shell daemon_env ''touch x'' (Some []) 5 demo_world)
       = Some (Inr \<lparr>res_status = ''completed'', res_output = Some [], res_error = None,
                    res_exit_code = Some 0\<rparr>)
   \<and> lookup (root demo_world) [''opt'', ''agent'', ''x''] = None
   \<and> lookup (root (snd (execute_shell daemon_env ''touch x'' (Some []) 5 demo_world)))
        [''opt'', ''agent'', ''x''] = Some (File [] 0)"
  by (simp add: demo_defs read_file_def failed_with_def execute_shell_def shell_cwd_def
      execute_shell_try_def finishes_within_def communicate_ms_def MAX_OUTPUT_SIZE_def
      running_at_def utf8_size_def Let_def)

text \<open>
  C4, amended: let a string resolve to a canonical path (one that resolves to
  itself) that is neither one of the roots of the allow-list (the home directory,
  \<open>/tmp\<close>, \<open>/var/tmp\<close>) nor below one. Then \<open>read_file\<close>, \<open>write_file\<close> and
  \<open>list_dir\<close> on it, and \<open>execute_shell\<close> with it as its working directory when
  the string is not empty, return status \<open>failed\<close>, an error that names the
  rejection and exit code 1, and leave the file system and the child processes as
  they were: \<open>write_file\<close> makes no directory and writes nothing, \<open>execute_shell\<close>
  starts no process.
\<close>

theorem outside_roots_rejected:
  assumes res: "resolve env path_str = Inr path"
    and canon: "resolve env (str_path path) = Inr path"
    and out: "\<And>allowed r. allowed \<in> set (ALLOWED_PATHS env) \<Longrightarrow> path \<noteq> allowed @ r"
  shows "read_file env path_str w
           = (\<lparr>res_status = ''failed'', res_output = None,
               res_error = Some (''Path not allowed: '' @ path_str), res_exit_code = Some 1\<rparr>, w)
       \<and> write_file env path_str content w
           = (\<lparr>res_status = ''failed'', res_output = None,
               res_error = Some (''Path not allowed: '' @ path_str), res_exit_code = Some 1\<rparr>, w)
       \<and> list_dir env path_str w
           = (\<lparr>res_status = ''failed'', res_output = None,
               res_error = Some (''Path not allowed: '' @ path_str), res_exit_code = Some 1\<rparr>, w)
       \<and> (path_str \<noteq> [] \<longrightarrow>
            execute_shell env command (Some path_str) timeout w
              = (Some (Inr \<lparr>res_status = ''failed'', res_output = None,
                      res_error = Some (''Working directory not allowed: '' @ path_str),
                      res_exit_code = Some 1\<rparr>), w))"
proof -
  have no: "\<not> is_path_allowed env (str_path path)"
    using is_path_allowed_iff[OF canon] out by blast
  have r: "read_file env path_str w = (failed_with (''Path not allowed: '' @ path_str), w)"
    using res no by (simp add: read_file_def)
  have wr: "write_file env path_str content w = (failed_with (''Path not allowed: '' @ path_str), w)"
    using res no by (simp add: write_file_def)
  have l: "list_dir env path_str w = (failed_with (''Path not allowed: '' @ path_str), w)"
    using res no by (simp add: list_dir_def)
  have sh: "path_str \<noteq> [] \<longrightarrow> execute_shell env command (Some path_str) timeout w
              = (Some (Inr (failed_with (''Working directory not allowed: '' @ path_str))), w)"
    using res no by (simp add: execute_shell_def shell_cwd_def or_empty_def)
  from r wr l sh show ?thesis by (simp add: failed_with_def)
qed

text \<open>
  The amended C4 on \<open>/etc/passwd\<close>, on a machine whose home directory is
  \<open>/Users/me\<close>: the file exists, and nothing reads it, writes it or runs in its
  place.
\<close>

theorem outside_roots_rejected_witness:
  "resolve demo_env ''/etc/passwd'' = Inr [''etc'', ''passwd'']
   \<and> resolve demo_env (str_path [''etc'', ''passwd'']) = Inr [''etc'', ''passwd'']
   \<and> ALLOWED_PATHS demo_env = [[''Users'', ''me''], [''tmp''], [''var'', ''tmp'']]
   \<and> lookup (root demo_world) [''etc'', ''passwd''] = Some (File ''root:x:0:0'' 10)
   \<and> read_file demo_env ''/etc/passwd'' demo_world
        = (\<lparr>res_status = ''failed'', res_output = None,
            res_error = Some ''Path not allowed: /etc/passwd'', res_exit_code = Some 1\<rparr>,
           demo_world)
   \<and> write_file demo_env ''/etc/passwd'' ''x'' demo_world
        = (\<lparr>res_status = ''failed'', res_output = None,
            res_error = Some ''Path not allowed: /etc/passwd'', res_exit_code = Some 1\<rparr>,
           demo_world)
   \<and> list_dir demo_env ''/etc/passwd'' demo_world
        = (\<lparr>res_status = ''failed'', res_output = None,
            res_error = Some ''Path not allowed: /etc/passwd'', res_exit_code = Some 1\<rparr>,
           demo_world)
   \<and> execute_shell demo_env ''false'' (Some ''/etc/passwd'') 5 demo_world
        = (Some (Inr \<lparr>res_status = ''failed'', res_output = None,
                res_error = Some ''Working directory not allowed: /etc/passwd'',
                res_exit_code = Some 1\<rparr>), demo_world)"
proof -
  have h1: "resolve demo_env ''/etc/passwd'' = Inr [''etc'', ''passwd'']"
    by (simp add: demo_defs)
  have h2: "resolve demo_env (str_path [''etc'', ''passwd'']) = Inr [''etc'', ''passwd'']"
    by (simp add: demo_defs)
  have al: "ALLOWED_PATHS demo_env = [[''Users'', ''me''], [''tmp''], [''var'', ''tmp'']]"
    by (simp add: demo_defs)
  have h3: "allowed \<in> set (ALLOWED_PATHS demo_env) \<Longrightarrow> [''etc'', ''passwd''] \<noteq> allowed @ r"
    for allowed r
    unfolding al by auto
  have lk: "lookup (root demo_world) [''etc'', ''passwd''] = Some (File ''root:x:0:0'' 10)"
    by (simp add: demo_world_def)
  from outside_roots_rejected[OF h1 h2 h3, of demo_world "''x''" "''false''" 5] h1 h2 al lk
  show ?thesis by simp
qed

subsection \<open>C5 and C9: shell commands\<close>




text \<open>
  When the shell has exited by itself before the timeout is over but a descendant
  still holds the pipes then, \<open>communicate\<close> has not returned: the answer is
  status \<open>timeout\<close> as well, and it comes when the timeout is over.
\<close>

lemma shell_timeout_after_exit:
  assumes cwd: "shell_cwd env working_dir = Inr cwd"
    and ok: "case cwd of None \<Rightarrow> True | Some p \<Rightarrow> is_path_allowed env (str_path p)"
    and sp: "create_subprocess_shell env command cwd = Inr p"
    and early: "exit_after_ms p = Some d" "int d < 1000 * timeout"
    and held: "\<not> finishes_within p timeout"
  shows "fst (execute_shell env command working_dir timeout w)
           = Some (Inr \<lparr>res_status = ''timeout'', res_output = None,
                  res_error = Some (''Command timed out after '' @ str_int timeout @ '' seconds''),
                  res_exit_code = Some (- 1)\<rparr>)
       \<and> clock_ms (snd (execute_shell env command working_dir timeout w))
           = clock_ms w + nat (1000 * timeout)"
proof -
  have gate: "\<not> (case cwd of None \<Rightarrow> False | Some p \<Rightarrow> \<not> is_path_allowed env (str_path p))"
    using ok by (cases cwd) auto
  show ?thesis
    using cwd gate sp early held
    by (simp add: execute_shell_def execute_shell_try_def kill_and_wait_ms_def Let_def)
qed






subsection \<open>C6: writing and reading back\<close>









subsection \<open>C7: the cap on what a handler returns\<close>

text \<open>
  The two streams of a shell command that has run, and the content \<open>read_file\<close>
  returns, are cut at the cap and marked.
\<close>

lemma read_file_output_capped:
  "res_output (fst (read_file env path_str w)) = Some out \<Longrightarrow>
   length out \<le> MAX_OUTPUT_SIZE + length ([CHR 0x0A] @ ''... (content truncated)'')"
  by (auto simp: read_file_def failed_with_def Let_def
      split: sum.splits if_splits option.splits node.splits)

lemma shell_streams_capped:
  assumes "create_subprocess_shell env command cwd = Inr p" and "finishes_within p timeout"
  shows "map_option res_output (fst (execute_shell_try env command cwd timeout w))
           = Some (Some (if MAX_OUTPUT_SIZE < length (stdout p)
                   then take MAX_OUTPUT_SIZE (stdout p) @ [CHR 0x0A] @ ''... (output truncated)''
                   else stdout p))
       \<and> map_option res_error (fst (execute_shell_try env command cwd timeout w))
           = Some (if stderr p = [] then None
              else Some (if MAX_OUTPUT_SIZE < length (stderr p)
                         then take MAX_OUTPUT_SIZE (stderr p) @ [CHR 0x0A] @ ''... (error truncated)''
                         else stderr p))"
  using assms by (auto simp: execute_shell_try_def Let_def MAX_OUTPUT_SIZE_def)

text \<open>The listing of a directory is at least as long as the names in it.\<close>

lemma length_join_ge: "sum_list (map length xs) \<le> length (join sep xs)"
  by (induction sep xs rule: join.induct) auto

lemma entry_line_ge: "length name \<le> length (entry_line es name)"
  by (simp add: entry_line_def split: option.splits node.splits)

lemma sum_list_map_insort:
  fixes f :: "'a \<Rightarrow> nat"
  shows "sum_list (map f (insort_key k x xs)) = f x + sum_list (map f xs)"
  by (induction xs) auto

lemma sum_list_map_sort:
  fixes f :: "'a \<Rightarrow> nat"
  shows "sum_list (map f (sort_key k xs)) = sum_list (map f xs)"
  by (induction xs) (auto simp: sum_list_map_insort)

lemma sum_list_ge:
  fixes f :: "'a \<Rightarrow> nat"
  shows "(\<And>x. x \<in> set xs \<Longrightarrow> c \<le> f x) \<Longrightarrow> c * length xs \<le> sum_list (map f xs)"
proof (induction xs)
  case Nil
  then show ?case by simp
next
  case (Cons x xs)
  have "c \<le> f x" using Cons.prems by simp
  moreover have "c * length xs \<le> sum_list (map f xs)"
    using Cons.prems by (intro Cons.IH) simp
  ultimately show ?case by simp
qed

lemma listing_length:
  "sum_list (map length (map fst es))
     \<le> length (join sep (map (entry_line es) (sort (map fst es))))"
proof -
  have "sum_list (map length (map fst es)) = sum_list (map length (sort (map fst es)))"
    by (simp add: sum_list_map_sort)
  also have "\<dots> \<le> sum_list (map (\<lambda>n. length (entry_line es n)) (sort (map fst es)))"
    by (rule sum_list_mono) (rule entry_line_ge)
  also have "\<dots> = sum_list (map length (map (entry_line es) (sort (map fst es))))"
    by (simp add: comp_def)
  also have "\<dots> \<le> length (join sep (map (entry_line es) (sort (map fst es))))"
    by (rule length_join_ge)
  finally show ?thesis .
qed

lemma big_names_length: "1250000 \<le> sum_list (map length (map fst big_entries))"
proof -
  have "250 * length [0..<5000::nat] \<le> sum_list (map (\<lambda>i. length (big_name i)) [0..<5000])"
    by (rule sum_list_ge) (simp add: big_name_def)
  then show ?thesis by (simp add: big_entries_def comp_def)
qed

text \<open>
  C7 holds where the code cuts: the two streams of \<open>execute_shell\<close> and the content
  of \<open>read_file\<close>. \<open>list_dir\<close> does not cut: on the directory \<open>/tmp/big\<close> it returns
  a listing longer than the cap and the longest marker together.
\<close>

theorem list_dir_not_capped:
  "\<exists>out. fst (list_dir demo_env ''/tmp/big'' big_world)
            = \<lparr>res_status = ''completed'', res_output = Some out, res_error = None,
               res_exit_code = Some 0\<rparr>
         \<and> MAX_OUTPUT_SIZE + length ([CHR 0x0A] @ ''... (content truncated)'') < length out"
proof -
  have r: "resolve demo_env ''/tmp/big'' = Inr [''tmp'', ''big'']"
    by (simp add: demo_defs)
  have a: "is_path_allowed demo_env (str_path [''tmp'', ''big''])"
    by (simp add: demo_defs)
  have m: "os_refuses demo_env call [''tmp'', ''big''] = None" for call
    by (simp add: demo_env_def demo_refuses_def)
  have l: "lookup (root big_world) [''tmp'', ''big''] = Some (Dir big_entries)"
    by (simp add: big_world_def)
  have "fst (list_dir demo_env ''/tmp/big'' big_world)
          = \<lparr>res_status = ''completed'',
             res_output = Some (join [CHR 0x0A]
                (map (entry_line big_entries) (sort (map fst big_entries)))),
             res_error = None, res_exit_code = Some 0\<rparr>"
    using r a m l by (simp add: list_dir_def)
  moreover have "MAX_OUTPUT_SIZE + length ([CHR 0x0A] @ ''... (content truncated)'')
      < length (join [CHR 0x0A] (map (entry_line big_entries) (sort (map fst big_entries))))"
    using big_names_length listing_length[of big_entries "[CHR 0x0A]"]
    by (simp add: MAX_OUTPUT_SIZE_def)
  ultimately show ?thesis by blast
qed

end
